theory Spec2Isabelle
  imports Complex_Main
begin

section \<open>Bundle adjustment on the BAL data set: the camera block and its residual\<close>

text \<open>
  The development follows the two source files of the repository: the g2o driver
  (\<open>PoseAndIntrinsics\<close>, \<open>VertexPoseAndIntrinsics\<close>, \<open>VertexPoint\<close>,
  \<open>EdgeProjection\<close>, \<open>SolveBA\<close>) and \<open>common.h\<close> (\<open>BALProblem\<close>).

  Numbers. A C++ \<open>double\<close> is idealised as a \<open>real\<close>: sums, products and quotients
  are exact. A quotient whose divisor is zero (IEEE gives an infinity or a NaN, HOL
  gives 0) is written out as the value \<open>None\<close>. Rounding and overflow are not modelled:
  a value \<open>Some v\<close> is the value of exact arithmetic, and says nothing on whether the
  doubles of the program stay finite on the way to it. A C++ \<open>int\<close> is an \<open>int\<close>; the counters of the
  loops below stay far from the 32-bit range, except in the one loop that never ends,
  whose test does not read the counter that grows.
\<close>

subsection \<open>Eigen vectors and matrices\<close>

type_synonym vec2 = "real \<times> real"
type_synonym vec3 = "real \<times> real \<times> real"

text \<open>A 3x3 matrix, by rows.\<close>
type_synonym mat3 = "vec3 \<times> vec3 \<times> vec3"

fun vx :: "vec3 \<Rightarrow> real" where "vx (x, y, z) = x"
fun vy :: "vec3 \<Rightarrow> real" where "vy (x, y, z) = y"
fun vz :: "vec3 \<Rightarrow> real" where "vz (x, y, z) = z"

fun vadd :: "vec3 \<Rightarrow> vec3 \<Rightarrow> vec3" where
  "vadd (a, b, c) (x, y, z) = (a + x, b + y, c + z)"

fun vneg :: "vec3 \<Rightarrow> vec3" where
  "vneg (x, y, z) = (- x, - y, - z)"

text \<open>\<open>v * s\<close> and \<open>v / s\<close> for a scalar \<open>s\<close>.\<close>
fun vscale :: "vec3 \<Rightarrow> real \<Rightarrow> vec3" where
  "vscale (x, y, z) s = (x * s, y * s, z * s)"

fun vdiv :: "vec3 \<Rightarrow> real \<Rightarrow> vec3" where
  "vdiv (x, y, z) s = (x / s, y / s, z / s)"

fun dot :: "vec3 \<Rightarrow> vec3 \<Rightarrow> real" where
  "dot (a, b, c) (x, y, z) = a * x + b * y + c * z"

definition squaredNorm :: "vec3 \<Rightarrow> real" where
  "squaredNorm v = dot v v"

fun vsub2 :: "vec2 \<Rightarrow> vec2 \<Rightarrow> vec2" where
  "vsub2 (a, b) (x, y) = (a - x, b - y)"

fun mat_vec :: "mat3 \<Rightarrow> vec3 \<Rightarrow> vec3" where
  "mat_vec (r0, r1, r2) v = (dot r0 v, dot r1 v, dot r2 v)"

fun col0 :: "mat3 \<Rightarrow> vec3" where "col0 (r0, r1, r2) = (vx r0, vx r1, vx r2)"
fun col1 :: "mat3 \<Rightarrow> vec3" where "col1 (r0, r1, r2) = (vy r0, vy r1, vy r2)"
fun col2 :: "mat3 \<Rightarrow> vec3" where "col2 (r0, r1, r2) = (vz r0, vz r1, vz r2)"

definition row_mat :: "vec3 \<Rightarrow> mat3 \<Rightarrow> vec3" where
  "row_mat r m = (dot r (col0 m), dot r (col1 m), dot r (col2 m))"

fun mat_mul :: "mat3 \<Rightarrow> mat3 \<Rightarrow> mat3" where
  "mat_mul (r0, r1, r2) m = (row_mat r0 m, row_mat r1 m, row_mat r2 m)"

definition mat_id :: mat3 where
  "mat_id = ((1, 0, 0), (0, 1, 0), (0, 0, 1))"

subsection \<open>\<open>PoseAndIntrinsics\<close>: the camera block\<close>

text \<open>
  \<open>Sophus::SO3d\<close> is a type of an external library. A value of it is modelled by the
  rotation matrix it stands for: \<open>R * p\<close> is \<open>mat_vec R p\<close> and the group product
  \<open>R * S\<close> is \<open>mat_mul R S\<close>. The exponential \<open>SO3d::exp\<close> and the logarithm
  \<open>SO3d::log\<close> are parameters of the functions that call them (\<open>so3_exp\<close>,
  \<open>so3_log\<close>).
\<close>

type_synonym SO3d = mat3

record PoseAndIntrinsics =
  rotation :: SO3d
  translation :: vec3
  focal :: real
  k1 :: real
  k2 :: real

text \<open>The default constructor: identity rotation, everything else zero.\<close>
definition PoseAndIntrinsics_default :: PoseAndIntrinsics where
  "PoseAndIntrinsics_default =
     \<lparr>rotation = mat_id, translation = (0, 0, 0), focal = 0, k1 = 0, k2 = 0\<rparr>"

text \<open>
  A \<open>double *\<close> into one of the flat arrays is the array together with an offset:
  \<open>data_addr[k]\<close> is \<open>mem ! (data_addr + k)\<close>, and a write returns the array updated.

  \<open>explicit PoseAndIntrinsics(double *data_addr)\<close>: reads nine scalars.
\<close>
definition PoseAndIntrinsics_from ::
    "(vec3 \<Rightarrow> SO3d) \<Rightarrow> real list \<Rightarrow> nat \<Rightarrow> PoseAndIntrinsics" where
  "PoseAndIntrinsics_from so3_exp mem data_addr =
     \<lparr>rotation = so3_exp (mem ! (data_addr + 0), mem ! (data_addr + 1), mem ! (data_addr + 2)),
      translation = (mem ! (data_addr + 3), mem ! (data_addr + 4), mem ! (data_addr + 5)),
      focal = mem ! (data_addr + 6),
      k1 = mem ! (data_addr + 7),
      k2 = mem ! (data_addr + 8)\<rparr>"

text \<open>
  \<open>set_to(double *data_addr)\<close>: writes nine scalars. The two little loops of the
  source are unrolled.
\<close>
definition set_to ::
    "(SO3d \<Rightarrow> vec3) \<Rightarrow> PoseAndIntrinsics \<Rightarrow> real list \<Rightarrow> nat \<Rightarrow> real list" where
  "set_to so3_log est mem data_addr =
     (let r = so3_log (rotation est);
          t = translation est
      in mem[data_addr + 0 := vx r, data_addr + 1 := vy r, data_addr + 2 := vz r,
             data_addr + 3 := vx t, data_addr + 4 := vy t, data_addr + 5 := vz t,
             data_addr + 6 := focal est, data_addr + 7 := k1 est, data_addr + 8 := k2 est])"

subsection \<open>\<open>VertexPoseAndIntrinsics\<close>\<close>

text \<open>\<open>oplusImpl(const double *update)\<close> on the vertex's estimate.\<close>
definition oplusImpl :: "(vec3 \<Rightarrow> SO3d) \<Rightarrow> PoseAndIntrinsics \<Rightarrow> real list \<Rightarrow> PoseAndIntrinsics" where
  "oplusImpl so3_exp est update =
     est\<lparr>rotation := mat_mul (so3_exp (update ! 0, update ! 1, update ! 2)) (rotation est),
         translation := vadd (translation est) (update ! 3, update ! 4, update ! 5),
         focal := focal est + update ! 6,
         k1 := k1 est + update ! 7,
         k2 := k2 est + update ! 8\<rparr>"

text \<open>
  \<open>project(const Eigen::Vector3d &point)\<close>. The source divides by \<open>pc[2]\<close> with no test
  before it. When \<open>pc[2]\<close> is zero the third component of \<open>-pc / pc[2]\<close> is \<open>0/0\<close>, a
  NaN, so \<open>r2\<close>, \<open>distortion\<close> and both returned coordinates are NaN: that outcome is
  \<open>None\<close>. Otherwise the result is \<open>Some\<close> of the two coordinates as exact arithmetic
  gives them; the doubles of the program can also overflow at a depth that is not
  zero, which this value does not show.
\<close>
definition project :: "PoseAndIntrinsics \<Rightarrow> vec3 \<Rightarrow> vec2 option" where
  "project est point =
     (let pc = vadd (mat_vec (rotation est) point) (translation est)
      in if vz pc = 0 then None
         else
           let pc = vdiv (vneg pc) (vz pc);
               r2 = squaredNorm pc;
               distortion = 1 + r2 * (k1 est + k2 est * r2)
           in Some (focal est * distortion * vx pc, focal est * distortion * vy pc))"

text \<open>
  The projection as the specification words it: the radial polynomial is taken at the
  squared norm of the two-dimensional normalised image point (the \<open>x/z\<close> and \<open>y/z\<close>
  components only).
\<close>
definition project_spec :: "PoseAndIntrinsics \<Rightarrow> vec3 \<Rightarrow> vec2 option" where
  "project_spec est point =
     (let pc = vadd (mat_vec (rotation est) point) (translation est)
      in if vz pc = 0 then None
         else
           let xn = - vx pc / vz pc;
               yn = - vy pc / vz pc;
               r2 = xn * xn + yn * yn;
               distortion = 1 + k1 est * r2 + k2 est * (r2 * r2)
           in Some (focal est * distortion * xn, focal est * distortion * yn))"

subsection \<open>\<open>VertexPoint\<close> and \<open>EdgeProjection\<close>\<close>

text \<open>
  \<open>g2o::BaseVertex<D, T>\<close>: of the library's vertex only the fields this program
  sets are kept.
\<close>
record 'a BaseVertex =
  vertex_id :: int
  estimate :: 'a
  marginalized :: bool

type_synonym VertexPoseAndIntrinsics = "PoseAndIntrinsics BaseVertex"
type_synonym VertexPoint = "vec3 BaseVertex"

definition VertexPoint_oplusImpl :: "vec3 \<Rightarrow> real list \<Rightarrow> vec3" where
  "VertexPoint_oplusImpl est update = vadd est (update ! 0, update ! 1, update ! 2)"

type_synonym mat2 = "vec2 \<times> vec2"

definition Matrix2d_Identity :: mat2 where
  "Matrix2d_Identity = ((1, 0), (0, 1))"

text \<open>The robust kernels of g2o; this program constructs one of them.\<close>
datatype RobustKernel = RobustKernelHuber | RobustKernelCauchy

text \<open>
  \<open>EdgeProjection\<close>. \<open>_vertices[0]\<close> and \<open>_vertices[1]\<close> point at elements of the vectors
  \<open>vertex_pose_intrinsics\<close> and \<open>vertex_points\<close> of \<open>SolveBA\<close>: they are kept as the
  indices into these vectors. An edge that was given no kernel has \<open>None\<close>.
\<close>
record EdgeProjection =
  vertex0 :: int
  vertex1 :: int
  measurement :: vec2
  information :: mat2
  robustKernel :: "RobustKernel option"

text \<open>
  \<open>computeError()\<close>: the value it stores in \<open>_error\<close>, given the two vectors of vertices
  with their current estimates. \<open>None\<close> is the NaN residual of a projection that
  divided by zero.
\<close>
definition computeError ::
    "VertexPoseAndIntrinsics list \<Rightarrow> VertexPoint list \<Rightarrow> EdgeProjection \<Rightarrow> vec2 option" where
  "computeError vertex_pose_intrinsics vertex_points e =
     (let v0 = vertex_pose_intrinsics ! nat (vertex0 e);
          v1 = vertex_points ! nat (vertex1 e)
      in case project (estimate v0) (estimate v1) of
           None \<Rightarrow> None
         | Some proj \<Rightarrow> Some (vsub2 proj (measurement e)))"

subsection \<open>\<open>BALProblem\<close>\<close>

text \<open>The fields of the class, without the trailing underscore of their names.\<close>
record BALProblem =
  num_cameras :: int
  num_points :: int
  num_observations :: int
  num_parameters :: int
  use_quaternions :: bool
  point_index :: "int list"
  camera_index :: "int list"
  observations :: "real list"
  parameters :: "real list"

definition camera_block_size :: "BALProblem \<Rightarrow> int" where
  "camera_block_size bal = (if use_quaternions bal then 10 else 9)"

definition point_block_size :: "BALProblem \<Rightarrow> int" where
  "point_block_size bal = 3"

text \<open>\<open>mutable_cameras()\<close> and \<open>mutable_points()\<close>, as offsets into \<open>parameters\<close>.\<close>
definition mutable_cameras :: "BALProblem \<Rightarrow> int" where
  "mutable_cameras bal = 0"

definition mutable_points :: "BALProblem \<Rightarrow> int" where
  "mutable_points bal = camera_block_size bal * num_cameras bal"

subsection \<open>Loops\<close>

text \<open>\<open>for (int i = i0; i < n; ++i) body\<close>, where the body does not assign \<open>i\<close>.\<close>
function for_loop :: "int \<Rightarrow> int \<Rightarrow> (int \<Rightarrow> 's \<Rightarrow> 's) \<Rightarrow> 's \<Rightarrow> 's" where
  "for_loop i n body s = (if i < n then for_loop (i + 1) n body (body i s) else s)"
  by pat_completeness auto
termination
  by (relation "measure (\<lambda>(i, n, body, s). nat (n - i))") auto

declare for_loop.simps [simp del]

subsection \<open>\<open>SolveBA\<close>\<close>

text \<open>
  The graph handed to g2o: the vertices are those of the two vectors of \<open>SolveBA\<close>.
  \<open>SolveBA\<close> calls \<open>num_points()\<close> and \<open>num_observations()\<close>; the class declares these
  readers as \<open>number_points()\<close> and \<open>number_observations()\<close>, which return the fields
  \<open>num_points_\<close> and \<open>num_observations_\<close>: the model reads the fields.
\<close>
record SparseOptimizer =
  camera_vertices :: "VertexPoseAndIntrinsics list"
  point_vertices :: "VertexPoint list"
  edges :: "EdgeProjection list"
  verbose :: bool

text \<open>The first loop: one camera vertex for each camera block.\<close>
definition SolveBA_camera_vertices ::
    "(vec3 \<Rightarrow> SO3d) \<Rightarrow> BALProblem \<Rightarrow> VertexPoseAndIntrinsics list" where
  "SolveBA_camera_vertices so3_exp bal =
     for_loop 0 (num_cameras bal)
       (\<lambda>i vertex_pose_intrinsics.
          let camera = nat (mutable_cameras bal + camera_block_size bal * i);
              v = \<lparr>vertex_id = i,
                   estimate = PoseAndIntrinsics_from so3_exp (parameters bal) camera,
                   marginalized = False\<rparr>
          in vertex_pose_intrinsics @ [v])
       []"

text \<open>The second loop: one point vertex for each point block, marginalised.\<close>
definition SolveBA_point_vertices :: "BALProblem \<Rightarrow> VertexPoint list" where
  "SolveBA_point_vertices bal =
     for_loop 0 (num_points bal)
       (\<lambda>i vertex_points.
          let point = nat (mutable_points bal + point_block_size bal * i);
              v = \<lparr>vertex_id = i + num_cameras bal,
                   estimate = (parameters bal ! (point + 0), parameters bal ! (point + 1),
                               parameters bal ! (point + 2)),
                   marginalized = True\<rparr>
          in vertex_points @ [v])
       []"

text \<open>The third loop: the edges.\<close>
definition SolveBA_edges :: "BALProblem \<Rightarrow> EdgeProjection list" where
  "SolveBA_edges bal =
     for_loop 0 (num_observations bal)
       (\<lambda>i es.
          let edge = \<lparr>vertex0 = camera_index bal ! nat i,
                      vertex1 = point_index bal ! nat i,
                      measurement = (observations bal ! nat (2 * i + 0),
                                     observations bal ! nat (2 * i + 1)),
                      information = Matrix2d_Identity,
                      robustKernel = Some RobustKernelHuber\<rparr>
          in es @ [edge])
       []"

definition SolveBA_graph :: "(vec3 \<Rightarrow> SO3d) \<Rightarrow> BALProblem \<Rightarrow> SparseOptimizer" where
  "SolveBA_graph so3_exp bal =
     \<lparr>camera_vertices = SolveBA_camera_vertices so3_exp bal,
      point_vertices = SolveBA_point_vertices bal,
      edges = SolveBA_edges bal,
      verbose = True\<rparr>"

text \<open>
  \<open>optimizer.optimize(40)\<close> is g2o's. It changes the estimates held by the vertices the
  two vectors point at, and nothing else this function reads afterwards: the parameter
  \<open>optimize\<close> gives, for the graph and the number of iterations, the estimate of
  \<open>vertex_pose_intrinsics[i]\<close> and of \<open>vertex_points[j]\<close> when it returns.
\<close>
type_synonym optimizer = "SparseOptimizer \<Rightarrow> int \<Rightarrow> (int \<Rightarrow> PoseAndIntrinsics) \<times> (int \<Rightarrow> vec3)"

text \<open>The two loops after the optimisation, on the array \<open>parameters\<close>.\<close>
definition SolveBA_write_cameras ::
    "(SO3d \<Rightarrow> vec3) \<Rightarrow> BALProblem \<Rightarrow> (int \<Rightarrow> PoseAndIntrinsics) \<Rightarrow> real list \<Rightarrow> real list" where
  "SolveBA_write_cameras so3_log bal cam_est mem =
     for_loop 0 (num_cameras bal)
       (\<lambda>i mem.
          let camera = nat (mutable_cameras bal + camera_block_size bal * i)
          in set_to so3_log (cam_est i) mem camera)
       mem"

definition SolveBA_write_points :: "BALProblem \<Rightarrow> (int \<Rightarrow> vec3) \<Rightarrow> real list \<Rightarrow> real list" where
  "SolveBA_write_points bal point_est mem =
     for_loop 0 (num_points bal)
       (\<lambda>j mem.
          let point = nat (mutable_points bal + point_block_size bal * j)
          in mem[point + 0 := vx (point_est j), point + 1 := vy (point_est j),
                 point + 2 := vz (point_est j)])
       mem"

definition SolveBA :: "(vec3 \<Rightarrow> SO3d) \<Rightarrow> (SO3d \<Rightarrow> vec3) \<Rightarrow> optimizer \<Rightarrow> BALProblem \<Rightarrow> BALProblem" where
  "SolveBA so3_exp so3_log optimize bal =
     (let (cam_est, point_est) = optimize (SolveBA_graph so3_exp bal) 40
      in bal\<lparr>parameters :=
               SolveBA_write_points bal point_est
                 (SolveBA_write_cameras so3_log bal cam_est (parameters bal))\<rparr>)"

subsection \<open>\<open>BALProblem::WriteToFile\<close> and the header the constructor reads\<close>

text \<open>
  The text file is the sequence of its fields, in the order they are printed; blanks
  and line ends, which \<open>fscanf\<close> skips, are left out. A field remembers the conversion
  that printed it: \<open>%d\<close>, \<open>%g\<close> or \<open>%.16g\<close>.
\<close>
datatype field = D int | G real | G16 real

definition write_header :: "BALProblem \<Rightarrow> field list" where
  "write_header bal =
     [D (num_cameras bal), D (num_cameras bal), D (num_points bal), D (num_observations bal)]"

text \<open>The loop over the observations; its inner loop over \<open>j < 2\<close> is unrolled.\<close>
definition write_observations :: "BALProblem \<Rightarrow> field list \<Rightarrow> field list" where
  "write_observations bal out =
     for_loop 0 (num_observations bal)
       (\<lambda>i out. out @ [D (camera_index bal ! nat i), D (point_index bal ! nat i),
                        G (observations bal ! nat (2 * i + 0)),
                        G (observations bal ! nat (2 * i + 1))])
       out"

text \<open>
  The local array \<open>angleaxis[9]\<close> of camera \<open>i\<close>. \<open>QuaternionToAngleAxis\<close> is declared
  in \<open>rotation.h\<close>; it is the parameter \<open>q2aa\<close>, from the four scalars of a quaternion to
  the three of a rotation vector.
\<close>
definition camera_angleaxis :: "(real list \<Rightarrow> real list) \<Rightarrow> BALProblem \<Rightarrow> int \<Rightarrow> real list" where
  "camera_angleaxis q2aa bal i =
     (if use_quaternions bal
      then take 3 (q2aa (take 4 (drop (nat (10 * i)) (parameters bal))))
           @ take 6 (drop (nat (10 * i + 4)) (parameters bal))
      else take 9 (drop (nat (9 * i)) (parameters bal)))"

text \<open>
  \<open>for (int j = 0; j < 9; ++i) fprintf(fptr, "%.16g\n", angleaxis[j]);\<close>
  The loop tests \<open>j\<close> and increments \<open>i\<close>, the counter of the loop around it. It returns
  the \<open>i\<close> and the output it ends with, if it ends. The counter is an unbounded \<open>int\<close>
  here; in C++ it overflows after 2147483647 steps, which the language leaves undefined,
  and the test does not read it.
\<close>
partial_function (option) write_camera_scalars ::
    "real list \<Rightarrow> int \<Rightarrow> int \<Rightarrow> field list \<Rightarrow> (int \<times> field list) option" where
  "write_camera_scalars angleaxis i j out =
     (if j < 9
      then write_camera_scalars angleaxis (i + 1) j (out @ [G16 (angleaxis ! nat j)])
      else Some (i, out))"

text \<open>The loop over the cameras, around it.\<close>
partial_function (option) write_cameras ::
    "(real list \<Rightarrow> real list) \<Rightarrow> BALProblem \<Rightarrow> int \<Rightarrow> field list \<Rightarrow> field list option" where
  "write_cameras q2aa bal i out =
     (if i < num_cameras bal
      then Option.bind (write_camera_scalars (camera_angleaxis q2aa bal i) i 0 out)
             (\<lambda>r. write_cameras q2aa bal (fst r + 1) (snd r))
      else Some out)"

text \<open>The loop over the points; its inner loop runs \<open>point_block_size()\<close> = 3 times.\<close>
definition write_points :: "BALProblem \<Rightarrow> field list \<Rightarrow> field list" where
  "write_points bal out =
     (let points = camera_block_size bal * num_cameras bal
      in for_loop 0 (num_points bal)
           (\<lambda>i out.
              let point = nat (points + i * point_block_size bal)
              in out @ [G16 (parameters bal ! (point + 0)), G16 (parameters bal ! (point + 1)),
                        G16 (parameters bal ! (point + 2))])
           out)"

text \<open>
  \<open>WriteToFile\<close>. \<open>opened\<close> says whether \<open>fopen\<close> gave a file. The outer \<open>option\<close> is
  \<open>None\<close> when the function does not return; the inner one is the file when it returns:
  \<open>None\<close> when none was opened, else the fields written.
\<close>
definition WriteToFile ::
    "(real list \<Rightarrow> real list) \<Rightarrow> BALProblem \<Rightarrow> bool \<Rightarrow> field list option option" where
  "WriteToFile q2aa bal opened =
     (if \<not> opened then Some None
      else Option.bind (write_cameras q2aa bal 0 (write_observations bal (write_header bal)))
             (\<lambda>out. Some (Some (write_points bal out))))"

text \<open>
  The head of the constructor \<open>BALProblem::BALProblem\<close>: three calls of
  \<open>FscanfOrDie(fptr, "%d", ...)\<close> into \<open>num_cameras_\<close>, \<open>num_points_\<close> and
  \<open>num_observations_\<close>. A \<open>%d\<close> field is read as it was printed; on a file that does
  not start with three of them the model says nothing (\<open>None\<close>).
\<close>
fun BALProblem_read_header :: "field list \<Rightarrow> (int \<times> int \<times> int) option" where
  "BALProblem_read_header (D a # D b # D c # rest) = Some (a, b, c)"
| "BALProblem_read_header fs = None"

subsection \<open>Camera centre\<close>

text \<open>
  \<open>AngleAxisRotatePoint\<close>, \<open>QuaternionToAngleAxis\<close> and \<open>AngleAxisToQuaternion\<close> are
  declared in \<open>rotation.h\<close>; they are the parameters \<open>rotate_point\<close>, \<open>q2aa\<close> and \<open>aa2q\<close>.
  The results \<open>angle_axis\<close> and \<open>center\<close> of the first function are returned as a pair;
  the second writes into the array \<open>mem\<close> at \<open>camera\<close>.
\<close>
definition CameraToAngleAxisAndCenter ::
    "(vec3 \<Rightarrow> vec3 \<Rightarrow> vec3) \<Rightarrow> (real list \<Rightarrow> real list) \<Rightarrow> BALProblem
       \<Rightarrow> real list \<Rightarrow> nat \<Rightarrow> vec3 \<times> vec3" where
  "CameraToAngleAxisAndCenter rotate_point q2aa bal mem camera =
     (let angle_axis =
            (if use_quaternions bal
             then (let a = q2aa (take 4 (drop camera mem)) in (a ! 0, a ! 1, a ! 2))
             else (mem ! (camera + 0), mem ! (camera + 1), mem ! (camera + 2)));
          inverse_rotation = vneg angle_axis;
          t = nat (int camera + camera_block_size bal - 6);
          center = rotate_point inverse_rotation (mem ! (t + 0), mem ! (t + 1), mem ! (t + 2));
          center = vscale center (- 1)
      in (angle_axis, center))"

definition AngleAxisAndCenterToCamera ::
    "(vec3 \<Rightarrow> vec3 \<Rightarrow> vec3) \<Rightarrow> (vec3 \<Rightarrow> real list) \<Rightarrow> BALProblem
       \<Rightarrow> vec3 \<Rightarrow> vec3 \<Rightarrow> real list \<Rightarrow> nat \<Rightarrow> real list" where
  "AngleAxisAndCenterToCamera rotate_point aa2q bal angle_axis center mem camera =
     (let mem =
            (if use_quaternions bal
             then (let q = aa2q angle_axis
                   in mem[camera + 0 := q ! 0, camera + 1 := q ! 1, camera + 2 := q ! 2,
                          camera + 3 := q ! 3])
             else mem[camera + 0 := vx angle_axis, camera + 1 := vy angle_axis,
                      camera + 2 := vz angle_axis]);
          t = nat (int camera + camera_block_size bal - 6);
          r = rotate_point angle_axis center;
          mem = mem[t + 0 := vx r, t + 1 := vy r, t + 2 := vz r];
          r = vscale (mem ! (t + 0), mem ! (t + 1), mem ! (t + 2)) (- 1)
      in mem[t + 0 := vx r, t + 1 := vy r, t + 2 := vz r])"

subsection \<open>Named expressions and instances for the examples\<close>

text \<open>The first line of \<open>project\<close>: the point in the camera frame, \<open>R p + t\<close>.\<close>
definition camera_frame :: "PoseAndIntrinsics \<Rightarrow> vec3 \<Rightarrow> vec3" where
  "camera_frame est point = vadd (mat_vec (rotation est) point) (translation est)"

text \<open>
  The rest of \<open>project\<close>, from its second line on, for whatever vector \<open>pc\<close> the first
  line computed.
\<close>
definition perspective :: "PoseAndIntrinsics \<Rightarrow> vec3 \<Rightarrow> vec2 option" where
  "perspective est pc0 =
     (if vz pc0 = 0 then None
      else
        let pc = vdiv (vneg pc0) (vz pc0);
            r2 = squaredNorm pc;
            distortion = 1 + r2 * (k1 est + k2 est * r2)
        in Some (focal est * distortion * vx pc, focal est * distortion * vy pc))"

text \<open>
  Instances of the library parameters, for the examples only. For \<open>SO3d::exp\<close> and
  \<open>SO3d::log\<close>: the first-order truncation \<open>I + [w]\<close> of the exponential and the map
  that reads \<open>w\<close> back from the skew part. For \<open>AngleAxisRotatePoint\<close>: the rotation
  about the z-axis by the third component of the rotation vector, which is what the
  function computes for a vector along that axis.
\<close>
definition exp_first_order :: "vec3 \<Rightarrow> SO3d" where
  "exp_first_order w = ((1, - vz w, vy w), (vz w, 1, - vx w), (- vy w, vx w, 1))"

fun log_first_order :: "SO3d \<Rightarrow> vec3" where
  "log_first_order ((a, b, c), (d, e, f), (g, h, i)) = (h, c, d)"

definition rotate_about_z :: "vec3 \<Rightarrow> vec3 \<Rightarrow> vec3" where
  "rotate_about_z a p =
     (cos (vz a) * vx p - sin (vz a) * vy p, sin (vz a) * vx p + cos (vz a) * vy p, vz p)"

text \<open>
  A second instance for \<open>SO3d::exp\<close> and \<open>SO3d::log\<close>: the rotation about the z-axis by
  the third component of the vector, which is the exponential of a vector along that
  axis, and the logarithm that returns its angle in the interval from \<open>-pi\<close> (excluded)
  to \<open>pi\<close> (included). The exponential has period \<open>2 pi\<close>, so the logarithm gives back
  a vector only when its angle lies in that interval.
\<close>
definition exp_about_z :: "vec3 \<Rightarrow> SO3d" where
  "exp_about_z w = ((cos (vz w), - sin (vz w), 0), (sin (vz w), cos (vz w), 0), (0, 0, 1))"

fun log_about_z :: "SO3d \<Rightarrow> vec3" where
  "log_about_z ((a, b, c), (d, e, f), (g, h, i)) = (0, 0, Arg (Complex a d))"

text \<open>
  Problems for the examples: two cameras that see one point (the scenario of the
  specification), a problem with points and no camera, one camera with one point and
  one observation, and the empty problem.
\<close>
definition bal_two_cameras :: BALProblem where
  "bal_two_cameras =
     \<lparr>num_cameras = 2, num_points = 1, num_observations = 2, num_parameters = 21,
      use_quaternions = False,
      point_index = [0, 0], camera_index = [0, 1],
      observations = [1, 2, 3, 4],
      parameters = [0, 0, 0, 0, 0, 0, 1, 0, 0,
                    0, 0, 0, 1, 0, 0, 1, 0, 0,
                    0, 0, - 1]\<rparr>"

definition bal_points_only :: BALProblem where
  "bal_points_only =
     \<lparr>num_cameras = 0, num_points = 1, num_observations = 0, num_parameters = 3,
      use_quaternions = False,
      point_index = [], camera_index = [], observations = [], parameters = [1, 2, 3]\<rparr>"

definition bal_one_each :: BALProblem where
  "bal_one_each =
     \<lparr>num_cameras = 1, num_points = 1, num_observations = 1, num_parameters = 12,
      use_quaternions = False,
      point_index = [0], camera_index = [0], observations = [1, 2],
      parameters = [0, 0, 0, 0, 0, 0, 1, 0, 0, 0, 0, - 1]\<rparr>"

definition bal_empty :: BALProblem where
  "bal_empty =
     \<lparr>num_cameras = 0, num_points = 0, num_observations = 0, num_parameters = 0,
      use_quaternions = False,
      point_index = [], camera_index = [], observations = [], parameters = []\<rparr>"

text \<open>One camera turned by a quarter turn about the z-axis, with translation (1, 0, 0).\<close>
definition bal_quarter_turn :: BALProblem where
  "bal_quarter_turn =
     \<lparr>num_cameras = 1, num_points = 1, num_observations = 1, num_parameters = 12,
      use_quaternions = False,
      point_index = [0], camera_index = [0], observations = [1, 2],
      parameters = [0, 0, pi / 2, 1, 0, 0, 1, 0, 0, 0, 0, - 1]\<rparr>"

text \<open>An optimiser for the examples: it returns fixed estimates.\<close>
definition optimize_example :: optimizer where
  "optimize_example g n =
     (\<lambda>i. \<lparr>rotation = mat_id, translation = (of_int i, 0, 0), focal = 2, k1 = 0, k2 = 0\<rparr>,
      \<lambda>j. (5, 6, 7))"

section \<open>Properties\<close>

subsection \<open>Vectors, loops and array writes\<close>

lemma mat_vec_mat_mul: "mat_vec (mat_mul A B) p = mat_vec A (mat_vec B p)"
  by (cases A; cases B; cases p) (auto simp: row_mat_def algebra_simps)

lemma vec3_eta: "(vx v, vy v, vz v) = v"
  by (cases v) simp

lemma vscale_minus_one: "vscale v (- 1) = vneg v"
  by (cases v) simp

lemma vneg_vneg: "vneg (vneg v) = v"
  by (cases v) simp

lemma for_loop_append_list:
  "for_loop i n (\<lambda>i acc. acc @ g i) acc = acc @ concat (map g [i..n - 1])"
proof (induction i n "\<lambda>(i::int) acc. acc @ g i" acc rule: for_loop.induct)
  case (1 i n s)
  show ?case
  proof (cases "i < n")
    case True
    then have "[i..n - 1] = i # [i + 1..n - 1]" by (simp add: upto_rec1)
    with True 1 show ?thesis by (subst for_loop.simps) simp
  next
    case False
    then show ?thesis by (subst for_loop.simps) simp
  qed
qed

lemma for_loop_append:
  "for_loop i n (\<lambda>i acc. acc @ [f i]) acc = acc @ map f [i..n - 1]"
proof (induction i n "\<lambda>(i::int) acc. acc @ [f i]" acc rule: for_loop.induct)
  case (1 i n s)
  show ?case
  proof (cases "i < n")
    case True
    then have "[i..n - 1] = i # [i + 1..n - 1]" by (simp add: upto_rec1)
    with True 1 show ?thesis by (subst for_loop.simps) simp
  next
    case False
    then show ?thesis by (subst for_loop.simps) simp
  qed
qed

lemma for_loop_length:
  "(\<forall>j s. length (body j s) = length s) \<Longrightarrow> length (for_loop i n body s) = length s"
proof (induction i n body s rule: for_loop.induct)
  case (1 i n body s)
  then show ?case
    by (subst for_loop.simps) simp
qed

lemma for_loop_outside:
  "(\<forall>j s. i \<le> j \<and> j < n \<longrightarrow> body j s ! m = s ! m) \<Longrightarrow> for_loop i n body s ! m = s ! m"
proof (induction i n body s rule: for_loop.induct)
  case (1 i n body s)
  show ?case
  proof (cases "i < n")
    case True
    have "for_loop (i + 1) n body (body i s) ! m = body i s ! m"
      using True "1.prems" by (intro "1.IH") auto
    also have "\<dots> = s ! m" using True "1.prems" by simp
    finally show ?thesis using True by (subst for_loop.simps) simp
  next
    case False
    then show ?thesis by (subst for_loop.simps) simp
  qed
qed

lemma for_loop_inside:
  "i \<le> j \<Longrightarrow> j < n \<Longrightarrow> length s = L
   \<Longrightarrow> (\<forall>j s. length (body j s) = length s)
   \<Longrightarrow> (\<forall>s. length s = L \<longrightarrow> body j s ! m = v)
   \<Longrightarrow> (\<forall>j' s. j < j' \<and> j' < n \<longrightarrow> body j' s ! m = s ! m)
   \<Longrightarrow> for_loop i n body s ! m = v"
proof (induction i n body s rule: for_loop.induct)
  case (1 i n body s)
  from "1.prems" have lt: "i < n" by simp
  show ?case
  proof (cases "i = j")
    case True
    have "for_loop (i + 1) n body (body i s) ! m = body i s ! m"
      using "1.prems" True by (intro for_loop_outside) auto
    also have "\<dots> = v" using "1.prems" True by simp
    finally show ?thesis using lt by (subst for_loop.simps) simp
  next
    case False
    with "1.prems" have "i + 1 \<le> j" by simp
    moreover have "length (body i s) = L" using "1.prems" by simp
    ultimately have "for_loop (i + 1) n body (body i s) ! m = v"
      using "1.prems" lt by (intro "1.IH") auto
    then show ?thesis using lt by (subst for_loop.simps) simp
  qed
qed

lemma camera_block_size_cases: "camera_block_size bal = 9 \<or> camera_block_size bal = 10"
  by (simp add: camera_block_size_def)

lemma bal_two_cameras_fields:
  "num_cameras bal_two_cameras = 2" "num_points bal_two_cameras = 1"
  "num_observations bal_two_cameras = 2" "use_quaternions bal_two_cameras = False"
  "point_index bal_two_cameras = [0, 0]" "camera_index bal_two_cameras = [0, 1]"
  "observations bal_two_cameras = [1, 2, 3, 4]"
  "parameters bal_two_cameras = [0, 0, 0, 0, 0, 0, 1, 0, 0, 0, 0, 0, 1, 0, 0, 1, 0, 0, 0, 0, - 1]"
  by (simp_all add: bal_two_cameras_def)

subsection \<open>The projection\<close>

lemma project_perspective: "project est point = perspective est (camera_frame est point)"
  by (simp add: project_def perspective_def camera_frame_def Let_def)

lemma perspective_zero_depth: "vz pc = 0 \<Longrightarrow> perspective est pc = None"
  by (simp add: perspective_def)

lemma perspective_mirror: "perspective est (vneg pc) = perspective est pc"
  by (cases pc) (simp add: perspective_def Let_def squaredNorm_def)

text \<open>
  C1. The projection maps a point into the camera frame, divides the negated
  coordinates by the depth, applies the radial polynomial and scales by the focal
  length; the specification takes the polynomial at the squared norm of the
  two-dimensional normalised point. The program takes \<open>squaredNorm\<close> of the whole
  three-vector \<open>-pc / pc[2]\<close>, whose third component is \<open>-1\<close>, so its \<open>r2\<close> is larger by
  one. At the identity rotation, zero translation, focal 1, k1 = 1, k2 = 0 and the point
  (1, 0, -1) the program returns (3, 0) where the specification's formula gives (2, 0).
\<close>
theorem project_r2_includes_third_component:
  "project \<lparr>rotation = mat_id, translation = (0, 0, 0), focal = 1, k1 = 1, k2 = 0\<rparr> (1, 0, - 1)
     = Some (3, 0)
   \<and> project_spec \<lparr>rotation = mat_id, translation = (0, 0, 0), focal = 1, k1 = 1, k2 = 0\<rparr> (1, 0, - 1)
     = Some (2, 0)"
  by (simp add: project_def project_spec_def mat_id_def squaredNorm_def)

subsection \<open>The update of the camera block\<close>

text \<open>
  C2. For every estimate and every 9-vector \<open>delta\<close>, \<open>oplusImpl\<close> replaces the rotation
  by \<open>exp(delta[0:3])\<close> composed on the left of the current rotation, so that a point is
  first turned by the current rotation and then by the increment, and adds
  \<open>delta[3:6]\<close>, \<open>delta[6]\<close>, \<open>delta[7]\<close>, \<open>delta[8]\<close> to the translation, the focal
  length, k1 and k2.
\<close>
theorem oplusImpl_left_retraction:
  assumes "length delta = 9"
  shows "rotation (oplusImpl so3_exp est delta)
           = mat_mul (so3_exp (delta ! 0, delta ! 1, delta ! 2)) (rotation est)
       \<and> (\<forall>p. mat_vec (rotation (oplusImpl so3_exp est delta)) p
                = mat_vec (so3_exp (delta ! 0, delta ! 1, delta ! 2)) (mat_vec (rotation est) p))
       \<and> translation (oplusImpl so3_exp est delta)
           = vadd (translation est) (delta ! 3, delta ! 4, delta ! 5)
       \<and> focal (oplusImpl so3_exp est delta) = focal est + delta ! 6
       \<and> k1 (oplusImpl so3_exp est delta) = k1 est + delta ! 7
       \<and> k2 (oplusImpl so3_exp est delta) = k2 est + delta ! 8"
  by (simp add: oplusImpl_def mat_vec_mat_mul)

theorem oplusImpl_left_retraction_witness:
  "length [0, 0, 1, 1, 2, 3, 4, 5, 6 :: real] = 9
   \<and> rotation (oplusImpl exp_first_order
        \<lparr>rotation = ((0, 0, 1), (1, 0, 0), (0, 1, 0)), translation = (0, 0, 0), focal = 1, k1 = 0, k2 = 0\<rparr> [0, 0, 1, 1, 2, 3, 4, 5, 6])
       = ((- 1, 0, 1), (1, 0, 1), (0, 1, 0))
   \<and> translation (oplusImpl exp_first_order
        \<lparr>rotation = ((0, 0, 1), (1, 0, 0), (0, 1, 0)), translation = (0, 0, 0), focal = 1, k1 = 0, k2 = 0\<rparr> [0, 0, 1, 1, 2, 3, 4, 5, 6])
       = (1, 2, 3)"
  using oplusImpl_left_retraction [of "[0, 0, 1, 1, 2, 3, 4, 5, 6]" exp_first_order
      "\<lparr>rotation = ((0, 0, 1), (1, 0, 0), (0, 1, 0)), translation = (0, 0, 0), focal = 1, k1 = 0, k2 = 0\<rparr>"]
  by (simp add: exp_first_order_def row_mat_def)

subsection \<open>Reading and writing the raw camera block\<close>

lemma log_exp_first_order: "log_first_order (exp_first_order w) = w"
  by (cases w) (simp add: exp_first_order_def)

lemma log_exp_about_z: "log_about_z (exp_about_z w) = (0, 0, Arg (cis (vz w)))"
  by (simp add: exp_about_z_def complex_eq_iff cis.code)

lemma exp_log_exp_about_z: "exp_about_z (log_about_z (exp_about_z w)) = exp_about_z w"
proof -
  have "cis (Arg (cis (vz w))) = cis (vz w)"
    using cis_Arg [of "cis (vz w)"] by simp
  then have "cos (Arg (cis (vz w))) = cos (vz w)" "sin (Arg (cis (vz w))) = sin (vz w)"
    by (simp_all add: complex_eq_iff)
  then show ?thesis by (simp add: log_exp_about_z) (simp add: exp_about_z_def)
qed

lemma Arg_cis_one: "Arg (cis 1) = 1"
proof (rule cis_Arg_unique)
  show "sgn (cis 1) = cis 1" by simp
  show "- pi < 1" using pi_gt_zero by linarith
  show "1 \<le> pi" using pi_ge_two by linarith
qed

lemma set_to_length: "length (set_to so3_log est mem a) = length mem"
  by (simp add: set_to_def Let_def)

lemma set_to_nth:
  assumes "a + 9 \<le> length mem"
  shows "set_to so3_log est mem a ! (a + 0) = vx (so3_log (rotation est))"
    "set_to so3_log est mem a ! (a + 1) = vy (so3_log (rotation est))"
    "set_to so3_log est mem a ! (a + 2) = vz (so3_log (rotation est))"
    "set_to so3_log est mem a ! (a + 3) = vx (translation est)"
    "set_to so3_log est mem a ! (a + 4) = vy (translation est)"
    "set_to so3_log est mem a ! (a + 5) = vz (translation est)"
    "set_to so3_log est mem a ! (a + 6) = focal est"
    "set_to so3_log est mem a ! (a + 7) = k1 est"
    "set_to so3_log est mem a ! (a + 8) = k2 est"
  using assms by (simp_all add: set_to_def Let_def)

lemma set_to_nth_outside:
  "m < a \<or> a + 9 \<le> m \<Longrightarrow> set_to so3_log est mem a ! m = mem ! m"
  by (auto simp add: set_to_def Let_def)

lemma set_to_nth_list:
  assumes "a + 9 \<le> length mem" and "k < 9"
  shows "set_to so3_log est mem a ! (a + k) =
     [vx (so3_log (rotation est)), vy (so3_log (rotation est)), vz (so3_log (rotation est)),
      vx (translation est), vy (translation est), vz (translation est),
      focal est, k1 est, k2 est] ! k"
proof -
  from assms(2) have "k = 0 \<or> k = 1 \<or> k = 2 \<or> k = 3 \<or> k = 4 \<or> k = 5 \<or> k = 6 \<or> k = 7 \<or> k = 8"
    by arith
  then show ?thesis using set_to_nth [OF assms(1), of so3_log est] by auto
qed

text \<open>
  C3. For a raw block \<open>x\<close> of nine scalars at \<open>data_addr\<close>, any array \<open>out\<close> with room
  for nine scalars at \<open>out_addr\<close>, and an exponential and logarithm such that the
  logarithm gives back a vector with the same exponential: \<open>set_to\<close> of the estimate read
  from \<open>x\<close> writes into \<open>out\<close> a block that reads as the same estimate; its first three
  scalars are the logarithm of the rotation read from \<open>x\<close>; its scalars 3 to 8
  (translation, focal, k1, k2) are those of \<open>x\<close>; and when the rotation vector of \<open>x\<close> is
  the one the logarithm chooses (it lies on the logarithm's branch), all nine scalars
  are those of \<open>x\<close>. In the example the rotation vector (0, 0, 2 pi) is off the branch:
  the block written has (0, 0, 0) in its place and reads as the same estimate.
\<close>
theorem set_to_round_trip:
  assumes "data_addr + 9 \<le> length mem"
    and "out_addr + 9 \<le> length out"
    and "\<forall>w. so3_exp (so3_log (so3_exp w)) = so3_exp w"
  shows "PoseAndIntrinsics_from so3_exp
           (set_to so3_log (PoseAndIntrinsics_from so3_exp mem data_addr) out out_addr) out_addr
           = PoseAndIntrinsics_from so3_exp mem data_addr
       \<and> (set_to so3_log (PoseAndIntrinsics_from so3_exp mem data_addr) out out_addr ! (out_addr + 0),
          set_to so3_log (PoseAndIntrinsics_from so3_exp mem data_addr) out out_addr ! (out_addr + 1),
          set_to so3_log (PoseAndIntrinsics_from so3_exp mem data_addr) out out_addr ! (out_addr + 2))
           = so3_log (so3_exp (mem ! (data_addr + 0), mem ! (data_addr + 1), mem ! (data_addr + 2)))
       \<and> (\<forall>k. 3 \<le> k \<and> k < 9 \<longrightarrow>
             set_to so3_log (PoseAndIntrinsics_from so3_exp mem data_addr) out out_addr
               ! (out_addr + k) = mem ! (data_addr + k))
       \<and> (so3_log (so3_exp (mem ! (data_addr + 0), mem ! (data_addr + 1), mem ! (data_addr + 2)))
             = (mem ! (data_addr + 0), mem ! (data_addr + 1), mem ! (data_addr + 2))
           \<longrightarrow> (\<forall>k. k < 9 \<longrightarrow>
                 set_to so3_log (PoseAndIntrinsics_from so3_exp mem data_addr) out out_addr
                   ! (out_addr + k) = mem ! (data_addr + k)))
       \<and> length (set_to so3_log (PoseAndIntrinsics_from so3_exp mem data_addr) out out_addr)
           = length out"
proof -
  let ?est = "PoseAndIntrinsics_from so3_exp mem data_addr"
  let ?w = "(mem ! (data_addr + 0), mem ! (data_addr + 1), mem ! (data_addr + 2))"
  let ?raw = "set_to so3_log ?est out out_addr"
  note nth = set_to_nth [OF assms(2), of so3_log ?est]
  have rot: "rotation ?est = so3_exp ?w" by (simp add: PoseAndIntrinsics_from_def)
  have 1: "PoseAndIntrinsics_from so3_exp ?raw out_addr = ?est"
    unfolding PoseAndIntrinsics_from_def [of so3_exp ?raw] nth
    using assms(3) by (simp add: vec3_eta rot)
  have 2: "(?raw ! (out_addr + 0), ?raw ! (out_addr + 1), ?raw ! (out_addr + 2)) = so3_log (so3_exp ?w)"
    unfolding nth by (simp add: vec3_eta rot)
  have 3: "?raw ! (out_addr + k) = mem ! (data_addr + k)" if "3 \<le> k \<and> k < 9" for k
  proof -
    from that have "k = 3 \<or> k = 4 \<or> k = 5 \<or> k = 6 \<or> k = 7 \<or> k = 8" by arith
    then show ?thesis using nth by (auto simp: PoseAndIntrinsics_from_def)
  qed
  have 4: "?raw ! (out_addr + k) = mem ! (data_addr + k)"
    if br: "so3_log (so3_exp ?w) = ?w" and k: "k < 9" for k
  proof (cases "3 \<le> k")
    case True
    with k show ?thesis using 3 by simp
  next
    case False
    then have "k = 0 \<or> k = 1 \<or> k = 2" by arith
    moreover from 2 br have "?raw ! (out_addr + 0) = mem ! (data_addr + 0)"
      "?raw ! (out_addr + 1) = mem ! (data_addr + 1)" "?raw ! (out_addr + 2) = mem ! (data_addr + 2)"
      by simp_all
    ultimately show ?thesis by auto
  qed
  show ?thesis using 1 2 3 4 by (simp add: set_to_length)
qed

theorem set_to_round_trip_witness:
  "(0::nat) + 9 \<le> length [0, 0, 2 * pi, 4, 5, 6, 7, 8, 9]
   \<and> (0::nat) + 9 \<le> length (replicate 9 (0::real))
   \<and> (\<forall>w. exp_about_z (log_about_z (exp_about_z w)) = exp_about_z w)
   \<and> set_to log_about_z (PoseAndIntrinsics_from exp_about_z [0, 0, 2 * pi, 4, 5, 6, 7, 8, 9] 0)
        (replicate 9 0) 0 = [0, 0, 0, 4, 5, 6, 7, 8, 9]
   \<and> PoseAndIntrinsics_from exp_about_z [0, 0, 0, 4, 5, 6, 7, 8, 9] 0
       = PoseAndIntrinsics_from exp_about_z [0, 0, 2 * pi, 4, 5, 6, 7, 8, 9] 0
   \<and> log_about_z (exp_about_z (0, 0, 1)) = (0, 0, 1)
   \<and> set_to log_about_z (PoseAndIntrinsics_from exp_about_z [0, 0, 1, 4, 5, 6, 7, 8, 9] 0)
        (replicate 9 0) 0 = [0, 0, 1, 4, 5, 6, 7, 8, 9]"
proof -
  let ?x = "[0, 0, 2 * pi, 4, 5, 6, 7, 8, 9]"
  let ?y = "[0, 0, 1, 4, 5, 6, 7, 8, 9 :: real]"
  let ?out = "replicate 9 (0::real)"
  have lx: "(0::nat) + 9 \<le> length ?x" and ly: "(0::nat) + 9 \<le> length ?y"
    and lo: "(0::nat) + 9 \<le> length ?out" by simp_all
  have inv: "\<forall>w. exp_about_z (log_about_z (exp_about_z w)) = exp_about_z w"
    by (simp add: exp_log_exp_about_z)
  have on: "log_about_z (exp_about_z (0, 0, 1)) = (0, 0, 1)"
    by (simp add: log_exp_about_z Arg_cis_one)
  have off: "log_about_z (exp_about_z (0, 0, 2 * pi)) = (0, 0, 0)"
    by (simp add: log_exp_about_z Arg_zero cis_Arg_unique [of 1 0])
  note X = set_to_round_trip [OF lx lo inv]
  note Y = set_to_round_trip [OF ly lo inv]
  have wx: "set_to log_about_z (PoseAndIntrinsics_from exp_about_z ?x 0) ?out 0
              = [0, 0, 0, 4, 5, 6, 7, 8, 9]"
    using off by (simp add: set_to_def PoseAndIntrinsics_from_def Let_def numeral_eq_Suc)
  from X have "PoseAndIntrinsics_from exp_about_z
      (set_to log_about_z (PoseAndIntrinsics_from exp_about_z ?x 0) ?out 0) 0
       = PoseAndIntrinsics_from exp_about_z ?x 0" by (rule conjunct1)
  then have rx: "PoseAndIntrinsics_from exp_about_z [0, 0, 0, 4, 5, 6, 7, 8, 9] 0
       = PoseAndIntrinsics_from exp_about_z ?x 0" by (simp only: wx)
  from Y on have "\<forall>k<9. set_to log_about_z (PoseAndIntrinsics_from exp_about_z ?y 0) ?out 0 ! (0 + k)
      = ?y ! (0 + k)" by simp
  moreover from Y have "length (set_to log_about_z (PoseAndIntrinsics_from exp_about_z ?y 0) ?out 0) = 9"
    by simp
  ultimately have wy: "set_to log_about_z (PoseAndIntrinsics_from exp_about_z ?y 0) ?out 0 = ?y"
    by (intro nth_equalityI) simp_all
  show ?thesis using lx lo inv wx rx on wy by blast
qed

subsection \<open>The residual\<close>

text \<open>
  C4. The specification has the optimiser treat a point behind the camera, or a
  non-finite reprojection, as a rejected step, with a perspective division that never
  divides by zero. The program tests nothing: with both vertices at their origin
  (\<open>setToOriginImpl\<close>) the camera-frame point is (0, 0, 0), \<open>project\<close> divides by zero
  and \<open>computeError\<close> stores the NaN residual.
\<close>
theorem project_zero_depth_counterexample:
  "project PoseAndIntrinsics_default (0, 0, 0) = None
   \<and> computeError
        [\<lparr>vertex_id = 0, estimate = PoseAndIntrinsics_default, marginalized = False\<rparr>]
        [\<lparr>vertex_id = 1, estimate = (0, 0, 0), marginalized = True\<rparr>]
        \<lparr>vertex0 = 0, vertex1 = 0, measurement = (0, 0), information = Matrix2d_Identity,
         robustKernel = Some RobustKernelHuber\<rparr> = None"
  by (simp add: project_def computeError_def PoseAndIntrinsics_default_def mat_id_def)

text \<open>
  C4, as the program has it. \<open>project\<close> passes the camera-frame vector it computed to
  the division with no test between; whenever the third coordinate of that vector is
  zero the division is by zero and the projection is not finite; a camera-frame vector
  and its mirror image through the camera centre, one in front of the camera and one
  behind it, get the same projection, so the sign of the depth is never told apart; and
  \<open>computeError\<close> stores a residual that is not finite whenever the projection is not.
\<close>
theorem computeError_unguarded:
  "project est point = perspective est (camera_frame est point)
   \<and> (vz pc = 0 \<longrightarrow> perspective est pc = None)
   \<and> perspective est (vneg pc) = perspective est pc
   \<and> (project (estimate (vps ! nat (vertex0 e))) (estimate (vpts ! nat (vertex1 e))) = None
        \<longrightarrow> computeError vps vpts e = None)"
  by (simp add: project_perspective perspective_zero_depth perspective_mirror computeError_def)

theorem computeError_unguarded_witness:
  "vz (0, 0, 0) = 0
   \<and> perspective PoseAndIntrinsics_default (0, 0, 0) = None
   \<and> project PoseAndIntrinsics_default (0, 0, 0) = None
   \<and> computeError
        [\<lparr>vertex_id = 0, estimate = PoseAndIntrinsics_default, marginalized = False\<rparr>]
        [\<lparr>vertex_id = 1, estimate = (0, 0, 0), marginalized = True\<rparr>]
        \<lparr>vertex0 = 0, vertex1 = 0, measurement = (0, 0), information = Matrix2d_Identity,
         robustKernel = Some RobustKernelHuber\<rparr> = None
   \<and> perspective \<lparr>rotation = mat_id, translation = (0, 0, 0), focal = 1, k1 = 0, k2 = 0\<rparr> (1, 0, 1)
       = perspective \<lparr>rotation = mat_id, translation = (0, 0, 0), focal = 1, k1 = 0, k2 = 0\<rparr> (- 1, 0, - 1)"
proof -
  let ?e = "\<lparr>vertex0 = 0, vertex1 = 0, measurement = (0, 0), information = Matrix2d_Identity,
         robustKernel = Some RobustKernelHuber\<rparr>"
  let ?vps = "[\<lparr>vertex_id = 0, estimate = PoseAndIntrinsics_default, marginalized = False\<rparr>]"
  let ?vpts = "[\<lparr>vertex_id = 1, estimate = (0, 0, 0) :: vec3, marginalized = True\<rparr>]"
  note T = computeError_unguarded [where est = PoseAndIntrinsics_default and point = "(0, 0, 0)"
      and pc = "(0, 0, 0)" and vps = ?vps and vpts = ?vpts and e = ?e]
  have z: "vz (0, 0, 0) = 0" by simp
  have cf: "camera_frame PoseAndIntrinsics_default (0, 0, 0) = (0, 0, 0)"
    by (simp add: camera_frame_def PoseAndIntrinsics_default_def mat_id_def)
  from T z have p: "perspective PoseAndIntrinsics_default (0, 0, 0) = None" by blast
  from T have "project PoseAndIntrinsics_default (0, 0, 0)
      = perspective PoseAndIntrinsics_default (camera_frame PoseAndIntrinsics_default (0, 0, 0))"
    by (rule conjunct1)
  with p cf have pr: "project PoseAndIntrinsics_default (0, 0, 0) = None" by simp
  from T pr have ce: "computeError ?vps ?vpts ?e = None" by simp
  from computeError_unguarded [where pc = "(- 1, 0, - 1)"
      and est = "\<lparr>rotation = mat_id, translation = (0, 0, 0), focal = 1, k1 = 0, k2 = 0\<rparr>"]
  have m: "perspective \<lparr>rotation = mat_id, translation = (0, 0, 0), focal = 1, k1 = 0, k2 = 0\<rparr> (1, 0, 1)
       = perspective \<lparr>rotation = mat_id, translation = (0, 0, 0), focal = 1, k1 = 0, k2 = 0\<rparr> (- 1, 0, - 1)"
    by simp
  show ?thesis using z p pr ce m by blast
qed

subsection \<open>The graph built by \<open>SolveBA\<close>\<close>

lemma SolveBA_edges_eq:
  "SolveBA_edges bal = map (\<lambda>i. \<lparr>vertex0 = camera_index bal ! nat i,
                      vertex1 = point_index bal ! nat i,
                      measurement = (observations bal ! nat (2 * i),
                                     observations bal ! nat (2 * i + 1)),
                      information = Matrix2d_Identity,
                      robustKernel = Some RobustKernelHuber\<rparr>) [0..num_observations bal - 1]"
  unfolding SolveBA_edges_def Let_def
  by (simp add: for_loop_append)

lemma SolveBA_edges_length: "int (length (SolveBA_edges bal)) = max 0 (num_observations bal)"
  by (simp add: SolveBA_edges_eq)

lemma SolveBA_edges_nth:
  assumes "0 \<le> i" "i < num_observations bal"
  shows "SolveBA_edges bal ! nat i =
     \<lparr>vertex0 = camera_index bal ! nat i,
      vertex1 = point_index bal ! nat i,
      measurement = (observations bal ! nat (2 * i), observations bal ! nat (2 * i + 1)),
      information = Matrix2d_Identity,
      robustKernel = Some RobustKernelHuber\<rparr>"
  using assms by (simp add: SolveBA_edges_eq)

lemma SolveBA_camera_vertices_eq:
  "SolveBA_camera_vertices so3_exp bal =
     map (\<lambda>i. \<lparr>vertex_id = i,
               estimate = PoseAndIntrinsics_from so3_exp (parameters bal)
                            (nat (camera_block_size bal * i)),
               marginalized = False\<rparr>) [0..num_cameras bal - 1]"
  unfolding SolveBA_camera_vertices_def Let_def mutable_cameras_def
  by (simp add: for_loop_append)

lemma SolveBA_point_vertices_eq:
  "SolveBA_point_vertices bal =
     map (\<lambda>i. \<lparr>vertex_id = i + num_cameras bal,
               estimate = (parameters bal ! (nat (mutable_points bal + 3 * i) + 0),
                           parameters bal ! (nat (mutable_points bal + 3 * i) + 1),
                           parameters bal ! (nat (mutable_points bal + 3 * i) + 2)),
               marginalized = True\<rparr>) [0..num_points bal - 1]"
  unfolding SolveBA_point_vertices_def Let_def point_block_size_def
  by (simp add: for_loop_append)

text \<open>
  C6. For every edge of the graph, that of observation \<open>i\<close>, and whatever the current
  estimates of the vertices are, the error is the projection of the current estimate of
  the point \<open>point_index[i]\<close> by the camera \<open>camera_index[i]\<close>, minus the measured pixel
  \<open>(observations[2i], observations[2i+1])\<close> of that observation.
\<close>
theorem computeError_is_project_minus_measurement:
  assumes "0 \<le> i" and "i < num_observations bal"
  shows "computeError vps vpts (SolveBA_edges bal ! nat i) =
     (case project (estimate (vps ! nat (camera_index bal ! nat i)))
                   (estimate (vpts ! nat (point_index bal ! nat i))) of
        None \<Rightarrow> None
      | Some proj \<Rightarrow>
          Some (fst proj - observations bal ! nat (2 * i), snd proj - observations bal ! nat (2 * i + 1)))"
  using assms by (simp add: computeError_def SolveBA_edges_nth split: option.splits)

theorem computeError_is_project_minus_measurement_witness:
  "(0::int) \<le> 1 \<and> 1 < num_observations bal_two_cameras
   \<and> computeError
        [\<lparr>vertex_id = 0, estimate = PoseAndIntrinsics_default, marginalized = False\<rparr>,
         \<lparr>vertex_id = 1,
          estimate = \<lparr>rotation = mat_id, translation = (1, 0, 0), focal = 1, k1 = 0, k2 = 0\<rparr>,
          marginalized = False\<rparr>]
        [\<lparr>vertex_id = 2, estimate = (0, 0, - 1), marginalized = True\<rparr>]
        (SolveBA_edges bal_two_cameras ! nat 1) = Some (- 2, - 4)"
proof -
  have h0: "(0::int) \<le> 1" by simp
  have h1: "1 < num_observations bal_two_cameras" by (simp add: bal_two_cameras_def)
  show ?thesis
    using h0 h1 computeError_is_project_minus_measurement [OF h0 h1, of
        "[\<lparr>vertex_id = 0, estimate = PoseAndIntrinsics_default, marginalized = False\<rparr>,
         \<lparr>vertex_id = 1,
          estimate = \<lparr>rotation = mat_id, translation = (1, 0, 0), focal = 1, k1 = 0, k2 = 0\<rparr>,
          marginalized = False\<rparr>]"
        "[\<lparr>vertex_id = 2, estimate = (0, 0, - 1), marginalized = True\<rparr>]"]
    by (simp add: bal_two_cameras_fields project_def mat_id_def squaredNorm_def)
qed

text \<open>
  C7. There are as many edges as observations, and the edge of observation \<open>i\<close> joins
  the camera vertex \<open>camera_index[i]\<close> (whose id is that index) and the point vertex
  \<open>point_index[i]\<close> (whose id is that index plus the number of cameras), carries the
  measurement of the observation, the 2x2 identity as information matrix and a Huber
  kernel.
\<close>
theorem SolveBA_one_edge_per_observation:
  "int (length (SolveBA_edges bal)) = max 0 (num_observations bal)
   \<and> (\<forall>i. 0 \<le> i \<and> i < num_observations bal \<longrightarrow>
        vertex0 (SolveBA_edges bal ! nat i) = camera_index bal ! nat i
      \<and> vertex1 (SolveBA_edges bal ! nat i) = point_index bal ! nat i
      \<and> measurement (SolveBA_edges bal ! nat i)
          = (observations bal ! nat (2 * i), observations bal ! nat (2 * i + 1))
      \<and> information (SolveBA_edges bal ! nat i) = Matrix2d_Identity
      \<and> robustKernel (SolveBA_edges bal ! nat i) = Some RobustKernelHuber
      \<and> (0 \<le> camera_index bal ! nat i \<and> camera_index bal ! nat i < num_cameras bal \<longrightarrow>
           vertex_id (SolveBA_camera_vertices so3_exp bal ! nat (vertex0 (SolveBA_edges bal ! nat i)))
             = camera_index bal ! nat i)
      \<and> (0 \<le> point_index bal ! nat i \<and> point_index bal ! nat i < num_points bal \<longrightarrow>
           vertex_id (SolveBA_point_vertices bal ! nat (vertex1 (SolveBA_edges bal ! nat i)))
             = point_index bal ! nat i + num_cameras bal))"
  by (simp add: SolveBA_edges_length SolveBA_edges_nth SolveBA_camera_vertices_eq
      SolveBA_point_vertices_eq)

theorem SolveBA_one_edge_per_observation_witness:
  "(0::int) \<le> 1 \<and> 1 < num_observations bal_two_cameras
   \<and> int (length (SolveBA_edges bal_two_cameras)) = 2
   \<and> vertex0 (SolveBA_edges bal_two_cameras ! nat 1) = 1
   \<and> vertex1 (SolveBA_edges bal_two_cameras ! nat 1) = 0
   \<and> measurement (SolveBA_edges bal_two_cameras ! nat 1) = (3, 4)
   \<and> information (SolveBA_edges bal_two_cameras ! nat 1) = Matrix2d_Identity
   \<and> robustKernel (SolveBA_edges bal_two_cameras ! nat 1) = Some RobustKernelHuber
   \<and> vertex_id (SolveBA_camera_vertices exp_first_order bal_two_cameras
                   ! nat (vertex0 (SolveBA_edges bal_two_cameras ! nat 1))) = 1
   \<and> vertex_id (SolveBA_point_vertices bal_two_cameras
                   ! nat (vertex1 (SolveBA_edges bal_two_cameras ! nat 1))) = 2"
proof -
  have h: "(0::int) \<le> 1 \<and> 1 < num_observations bal_two_cameras"
    by (simp add: bal_two_cameras_def)
  note T = SolveBA_one_edge_per_observation [of bal_two_cameras exp_first_order]
  from T have len: "int (length (SolveBA_edges bal_two_cameras)) = max 0 (num_observations bal_two_cameras)"
    by (rule conjunct1)
  from T [THEN conjunct2, rule_format, OF h] h len show ?thesis
    by (auto simp add: bal_two_cameras_fields)
qed

subsection \<open>What \<open>SolveBA\<close> leaves in the arrays\<close>

lemma SolveBA_write_cameras_length:
  "length (SolveBA_write_cameras so3_log bal cam_est mem) = length mem"
  unfolding SolveBA_write_cameras_def by (rule for_loop_length) (simp add: set_to_length Let_def)

lemma SolveBA_write_points_length:
  "length (SolveBA_write_points bal point_est mem) = length mem"
  unfolding SolveBA_write_points_def by (rule for_loop_length) (simp add: Let_def)

lemma SolveBA_write_cameras_nth:
  assumes "0 \<le> i" and "i < num_cameras bal" and "k < 9"
    and "camera_block_size bal * num_cameras bal \<le> int (length mem)"
  shows "SolveBA_write_cameras so3_log bal cam_est mem ! (nat (camera_block_size bal * i) + k) =
     [vx (so3_log (rotation (cam_est i))), vy (so3_log (rotation (cam_est i))),
      vz (so3_log (rotation (cam_est i))),
      vx (translation (cam_est i)), vy (translation (cam_est i)), vz (translation (cam_est i)),
      focal (cam_est i), k1 (cam_est i), k2 (cam_est i)] ! k"
  unfolding SolveBA_write_cameras_def
proof (rule for_loop_inside [where j = i and L = "length mem"])
  show "0 \<le> i" "i < num_cameras bal" "length mem = length mem" using assms by simp_all
  show "\<forall>j s. length (let camera = nat (mutable_cameras bal + camera_block_size bal * j)
                      in set_to so3_log (cam_est j) s camera) = length s"
    by (simp add: Let_def set_to_length)
  have "nat (camera_block_size bal * i) + 9 \<le> length mem"
    using assms camera_block_size_cases [of bal] by auto
  then show "\<forall>s. length s = length mem \<longrightarrow>
       (let camera = nat (mutable_cameras bal + camera_block_size bal * i)
        in set_to so3_log (cam_est i) s camera) ! (nat (camera_block_size bal * i) + k) =
       [vx (so3_log (rotation (cam_est i))), vy (so3_log (rotation (cam_est i))),
        vz (so3_log (rotation (cam_est i))),
        vx (translation (cam_est i)), vy (translation (cam_est i)), vz (translation (cam_est i)),
        focal (cam_est i), k1 (cam_est i), k2 (cam_est i)] ! k"
    using assms(3) set_to_nth_list [of "nat (camera_block_size bal * i)" _ k so3_log "cam_est i"]
    by (simp only: Let_def mutable_cameras_def add_0) metis
  show "\<forall>j' s. i < j' \<and> j' < num_cameras bal \<longrightarrow>
       (let camera = nat (mutable_cameras bal + camera_block_size bal * j')
        in set_to so3_log (cam_est j') s camera) ! (nat (camera_block_size bal * i) + k) =
       s ! (nat (camera_block_size bal * i) + k)"
  proof (intro allI impI)
    fix j' s assume j': "i < j' \<and> j' < num_cameras bal"
    have "nat (camera_block_size bal * i) + k < nat (camera_block_size bal * j')"
      using assms j' camera_block_size_cases [of bal] by auto
    then show "(let camera = nat (mutable_cameras bal + camera_block_size bal * j')
        in set_to so3_log (cam_est j') s camera) ! (nat (camera_block_size bal * i) + k) =
       s ! (nat (camera_block_size bal * i) + k)"
      by (simp add: Let_def mutable_cameras_def set_to_nth_outside)
  qed
qed

lemma mutable_points_nonneg: "0 \<le> num_cameras bal \<Longrightarrow> 0 \<le> mutable_points bal"
  by (simp add: mutable_points_def camera_block_size_def)

lemma SolveBA_write_points_outside:
  assumes "int m < mutable_points bal"
  shows "SolveBA_write_points bal point_est mem ! m = mem ! m"
  unfolding SolveBA_write_points_def
proof (rule for_loop_outside, intro allI impI)
  fix j s assume "0 \<le> j \<and> j < num_points bal"
  with assms have "m < nat (mutable_points bal + point_block_size bal * j)"
    by (simp add: point_block_size_def) linarith
  then show "(let point = nat (mutable_points bal + point_block_size bal * j)
        in s[point + 0 := vx (point_est j), point + 1 := vy (point_est j),
             point + 2 := vz (point_est j)]) ! m = s ! m"
    by (simp add: Let_def)
qed

lemma point_write_nth:
  assumes "a + 3 \<le> length s" and "k < 3"
  shows "s[a + 0 := x, a + 1 := y, a + 2 := z] ! (a + k) = [x, y, z] ! k"
proof -
  from assms(2) have "k = 0 \<or> k = 1 \<or> k = 2" by arith
  then show ?thesis using assms(1) by auto
qed

lemma SolveBA_write_points_nth:
  assumes "0 \<le> j" and "j < num_points bal" and "k < 3" and "0 \<le> mutable_points bal"
    and "mutable_points bal + 3 * num_points bal \<le> int (length mem)"
  shows "SolveBA_write_points bal point_est mem ! (nat (mutable_points bal + 3 * j) + k) =
     [vx (point_est j), vy (point_est j), vz (point_est j)] ! k"
  unfolding SolveBA_write_points_def
proof (rule for_loop_inside [where j = j and L = "length mem"])
  show "0 \<le> j" "j < num_points bal" "length mem = length mem" using assms by simp_all
  show "\<forall>j s. length (let point = nat (mutable_points bal + point_block_size bal * j)
                      in s[point + 0 := vx (point_est j), point + 1 := vy (point_est j),
                           point + 2 := vz (point_est j)]) = length s"
    by (simp add: Let_def)
  have "nat (mutable_points bal + 3 * j) + 3 \<le> length mem"
    using assms by auto
  then show "\<forall>s. length s = length mem \<longrightarrow>
       (let point = nat (mutable_points bal + point_block_size bal * j)
        in s[point + 0 := vx (point_est j), point + 1 := vy (point_est j),
             point + 2 := vz (point_est j)]) ! (nat (mutable_points bal + 3 * j) + k) =
       [vx (point_est j), vy (point_est j), vz (point_est j)] ! k"
    using assms(3) by (simp only: Let_def point_block_size_def) (intro allI impI point_write_nth; simp)
  show "\<forall>j' s. j < j' \<and> j' < num_points bal \<longrightarrow>
       (let point = nat (mutable_points bal + point_block_size bal * j')
        in s[point + 0 := vx (point_est j'), point + 1 := vy (point_est j'),
             point + 2 := vz (point_est j')]) ! (nat (mutable_points bal + 3 * j) + k) =
       s ! (nat (mutable_points bal + 3 * j) + k)"
  proof (intro allI impI)
    fix j' s assume j': "j < j' \<and> j' < num_points bal"
    have "nat (mutable_points bal + 3 * j) + k < nat (mutable_points bal + 3 * j')"
      using assms j' by auto
    then show "(let point = nat (mutable_points bal + point_block_size bal * j')
        in s[point + 0 := vx (point_est j'), point + 1 := vy (point_est j'),
             point + 2 := vz (point_est j')]) ! (nat (mutable_points bal + 3 * j) + k) =
       s ! (nat (mutable_points bal + 3 * j) + k)"
      by (simp add: Let_def point_block_size_def)
  qed
qed

text \<open>
  C8. On a problem whose array \<open>parameters\<close> has one block for each camera and three
  scalars for each point, after \<open>SolveBA\<close> the first nine scalars of the block of camera
  \<open>i\<close> are the logarithm of the rotation, the translation, the focal length, k1 and k2
  of the estimate the optimiser left in vertex \<open>i\<close>, the three scalars of point \<open>j\<close> are
  the estimate left in its vertex, and the observations, the two index arrays and the
  counts are as they were.
\<close>
theorem SolveBA_writes_back_estimates:
  assumes "0 \<le> num_cameras bal" and "0 \<le> num_points bal"
    and "int (length (parameters bal))
           = camera_block_size bal * num_cameras bal + 3 * num_points bal"
    and "optimize (SolveBA_graph so3_exp bal) 40 = (cam_est, point_est)"
  shows "(\<forall>i k. 0 \<le> i \<and> i < num_cameras bal \<and> k < 9 \<longrightarrow>
            parameters (SolveBA so3_exp so3_log optimize bal) ! (nat (camera_block_size bal * i) + k)
              = [vx (so3_log (rotation (cam_est i))), vy (so3_log (rotation (cam_est i))),
                 vz (so3_log (rotation (cam_est i))),
                 vx (translation (cam_est i)), vy (translation (cam_est i)),
                 vz (translation (cam_est i)),
                 focal (cam_est i), k1 (cam_est i), k2 (cam_est i)] ! k)
       \<and> (\<forall>j k. 0 \<le> j \<and> j < num_points bal \<and> k < 3 \<longrightarrow>
            parameters (SolveBA so3_exp so3_log optimize bal)
                ! (nat (camera_block_size bal * num_cameras bal + 3 * j) + k)
              = [vx (point_est j), vy (point_est j), vz (point_est j)] ! k)
       \<and> length (parameters (SolveBA so3_exp so3_log optimize bal)) = length (parameters bal)
       \<and> observations (SolveBA so3_exp so3_log optimize bal) = observations bal
       \<and> camera_index (SolveBA so3_exp so3_log optimize bal) = camera_index bal
       \<and> point_index (SolveBA so3_exp so3_log optimize bal) = point_index bal
       \<and> num_cameras (SolveBA so3_exp so3_log optimize bal) = num_cameras bal
       \<and> num_points (SolveBA so3_exp so3_log optimize bal) = num_points bal
       \<and> num_observations (SolveBA so3_exp so3_log optimize bal) = num_observations bal"
proof -
  let ?mem1 = "SolveBA_write_cameras so3_log bal cam_est (parameters bal)"
  let ?mem2 = "SolveBA_write_points bal point_est ?mem1"
  have S: "SolveBA so3_exp so3_log optimize bal = bal\<lparr>parameters := ?mem2\<rparr>"
    by (simp add: SolveBA_def assms(4))
  have mp: "0 \<le> mutable_points bal" using assms(1) by (rule mutable_points_nonneg)
  have len1: "int (length ?mem1) = mutable_points bal + 3 * num_points bal"
    using assms(3) by (simp add: SolveBA_write_cameras_length mutable_points_def)
  have cams: "parameters (SolveBA so3_exp so3_log optimize bal) ! (nat (camera_block_size bal * i) + k)
              = [vx (so3_log (rotation (cam_est i))), vy (so3_log (rotation (cam_est i))),
                 vz (so3_log (rotation (cam_est i))),
                 vx (translation (cam_est i)), vy (translation (cam_est i)),
                 vz (translation (cam_est i)),
                 focal (cam_est i), k1 (cam_est i), k2 (cam_est i)] ! k"
    if "0 \<le> i \<and> i < num_cameras bal \<and> k < 9" for i k
  proof -
    have "int (nat (camera_block_size bal * i) + k) < mutable_points bal"
      using that camera_block_size_cases [of bal] by (auto simp: mutable_points_def)
    then have "?mem2 ! (nat (camera_block_size bal * i) + k) = ?mem1 ! (nat (camera_block_size bal * i) + k)"
      by (rule SolveBA_write_points_outside)
    also have "\<dots> = [vx (so3_log (rotation (cam_est i))), vy (so3_log (rotation (cam_est i))),
                 vz (so3_log (rotation (cam_est i))),
                 vx (translation (cam_est i)), vy (translation (cam_est i)),
                 vz (translation (cam_est i)),
                 focal (cam_est i), k1 (cam_est i), k2 (cam_est i)] ! k"
      using that assms(2,3) by (intro SolveBA_write_cameras_nth) auto
    finally show ?thesis by (simp add: S)
  qed
  have pts: "parameters (SolveBA so3_exp so3_log optimize bal)
                ! (nat (camera_block_size bal * num_cameras bal + 3 * j) + k)
              = [vx (point_est j), vy (point_est j), vz (point_est j)] ! k"
    if "0 \<le> j \<and> j < num_points bal \<and> k < 3" for j k
    using that mp len1 SolveBA_write_points_nth [of j bal k ?mem1 point_est]
    by (simp add: S mutable_points_def)
  show ?thesis
    using cams pts
    by (simp add: S SolveBA_write_cameras_length SolveBA_write_points_length)
qed

theorem SolveBA_writes_back_estimates_witness:
  "0 \<le> num_cameras bal_two_cameras \<and> 0 \<le> num_points bal_two_cameras
   \<and> int (length (parameters bal_two_cameras))
        = camera_block_size bal_two_cameras * num_cameras bal_two_cameras
          + 3 * num_points bal_two_cameras
   \<and> parameters (SolveBA exp_first_order log_first_order optimize_example bal_two_cameras) ! 12 = 1
   \<and> parameters (SolveBA exp_first_order log_first_order optimize_example bal_two_cameras) ! 15 = 2
   \<and> parameters (SolveBA exp_first_order log_first_order optimize_example bal_two_cameras) ! 20 = 7
   \<and> observations (SolveBA exp_first_order log_first_order optimize_example bal_two_cameras)
        = [1, 2, 3, 4]"
proof -
  have h1: "0 \<le> num_cameras bal_two_cameras" and h2: "0 \<le> num_points bal_two_cameras"
    and h3: "int (length (parameters bal_two_cameras))
        = camera_block_size bal_two_cameras * num_cameras bal_two_cameras
          + 3 * num_points bal_two_cameras"
    by (simp_all add: bal_two_cameras_def camera_block_size_def)
  have h4: "optimize_example (SolveBA_graph exp_first_order bal_two_cameras) 40 =
     (\<lambda>i::int. \<lparr>rotation = mat_id, translation = (of_int i, 0, 0), focal = 2, k1 = 0, k2 = 0\<rparr>,
      \<lambda>j::int. (5, 6, 7 :: real))"
    by (simp add: optimize_example_def)
  note T = SolveBA_writes_back_estimates [where optimize = optimize_example
      and so3_exp = exp_first_order and so3_log = log_first_order and bal = bal_two_cameras,
      OF h1 h2 h3 h4]
  have c: "1 < num_cameras bal_two_cameras" "0 < num_points bal_two_cameras"
    "nat (camera_block_size bal_two_cameras * 1) = 9"
    "nat (camera_block_size bal_two_cameras * num_cameras bal_two_cameras + 3 * 0) = 18"
    by (simp_all add: bal_two_cameras_def camera_block_size_def)
  from T [THEN conjunct1, rule_format, of 1 3]
  have a: "parameters (SolveBA exp_first_order log_first_order optimize_example bal_two_cameras)
      ! (nat (camera_block_size bal_two_cameras * 1) + 3) = 1"
    using c(1) by simp
  from T [THEN conjunct1, rule_format, of 1 6]
  have b: "parameters (SolveBA exp_first_order log_first_order optimize_example bal_two_cameras)
      ! (nat (camera_block_size bal_two_cameras * 1) + 6) = 2"
    using c(1) by simp
  from T [THEN conjunct2, THEN conjunct1, rule_format, of 0 2]
  have d: "parameters (SolveBA exp_first_order log_first_order optimize_example bal_two_cameras)
      ! (nat (camera_block_size bal_two_cameras * num_cameras bal_two_cameras + 3 * 0) + 2) = 7"
    using c(2) by simp
  from T have e: "observations (SolveBA exp_first_order log_first_order optimize_example bal_two_cameras)
        = observations bal_two_cameras" by blast
  show ?thesis using h1 h2 h3 a b d e unfolding c by (simp add: bal_two_cameras_fields)
qed

subsection \<open>\<open>WriteToFile\<close>\<close>

lemma write_camera_scalars_never_returns:
  assumes "write_camera_scalars angleaxis i j out = Some r"
  shows "\<not> j < 9"
  by (rule write_camera_scalars.raw_induct [where P = "\<lambda>angleaxis i j out r. \<not> j < 9", OF _ assms])
    (auto split: if_splits)

lemma write_camera_scalars_None: "j < 9 \<Longrightarrow> write_camera_scalars angleaxis i j out = None"
  using write_camera_scalars_never_returns [of angleaxis i j out]
  by (cases "write_camera_scalars angleaxis i j out") auto

lemma write_cameras_None: "i < num_cameras bal \<Longrightarrow> write_cameras q2aa bal i out = None"
  by (subst write_cameras.simps) (simp add: write_camera_scalars_None)

lemma write_cameras_Some: "\<not> i < num_cameras bal \<Longrightarrow> write_cameras q2aa bal i out = Some out"
  by (subst write_cameras.simps) simp

text \<open>
  C5. The loop that prints the nine scalars of a camera tests \<open>j\<close> and increments \<open>i\<close>:
  entered with \<open>j = 0\<close> it never returns, whatever the array and the counter. So the
  loop over the cameras never returns on a problem with at least one camera, and
  \<open>WriteToFile\<close> fails to return exactly when it has opened its file and the problem
  has at least one camera.
\<close>
theorem WriteToFile_camera_loop_diverges:
  "(\<forall>angleaxis i out. write_camera_scalars angleaxis i 0 out = None)
   \<and> (1 \<le> num_cameras bal \<longrightarrow> write_cameras q2aa bal 0 out = None)
   \<and> (WriteToFile q2aa bal opened = None \<longleftrightarrow> opened \<and> 1 \<le> num_cameras bal)"
proof (intro conjI allI impI)
  show "write_camera_scalars angleaxis i 0 out = None" for angleaxis i out
    by (simp add: write_camera_scalars_None)
  show "write_cameras q2aa bal 0 out = None" if "1 \<le> num_cameras bal"
    using that by (simp add: write_cameras_None)
  show "WriteToFile q2aa bal opened = None \<longleftrightarrow> opened \<and> 1 \<le> num_cameras bal"
  proof (cases "opened \<and> 1 \<le> num_cameras bal")
    case True
    then show ?thesis by (simp add: WriteToFile_def write_cameras_None)
  next
    case False
    then have "\<not> opened \<or> \<not> 0 < num_cameras bal" by auto
    then have "WriteToFile q2aa bal opened \<noteq> None"
      by (auto simp add: WriteToFile_def write_cameras_Some)
    with False show ?thesis by blast
  qed
qed

theorem WriteToFile_camera_loop_diverges_witness:
  "1 \<le> num_cameras bal_two_cameras
   \<and> write_cameras id bal_two_cameras 0 [] = None
   \<and> WriteToFile id bal_two_cameras True = None
   \<and> WriteToFile id bal_points_only True \<noteq> None"
  using WriteToFile_camera_loop_diverges [of bal_two_cameras id "[]" True]
    WriteToFile_camera_loop_diverges [of bal_points_only id "[]" True]
  by (simp add: bal_two_cameras_def bal_points_only_def)

lemma write_observations_prefix: "\<exists>rest. write_observations bal out = out @ rest"
  unfolding write_observations_def by (simp add: for_loop_append_list)

lemma write_points_prefix: "\<exists>rest. write_points bal out = out @ rest"
  unfolding write_points_def Let_def by (simp add: for_loop_append_list)

lemma WriteToFile_file_starts_with_header:
  assumes "WriteToFile q2aa bal opened = Some (Some file)"
  shows "\<exists>rest. file = write_header bal @ rest"
proof -
  from assms have op: opened by (auto simp: WriteToFile_def split: if_splits)
  have nc: "\<not> 0 < num_cameras bal"
  proof
    assume "0 < num_cameras bal"
    then have "WriteToFile q2aa bal opened = None"
      using op by (simp add: WriteToFile_def write_cameras_None)
    with assms show False by simp
  qed
  from assms op nc have f: "file = write_points bal (write_observations bal (write_header bal))"
    by (simp add: WriteToFile_def write_cameras_Some)
  obtain r1 where r1: "write_observations bal (write_header bal) = write_header bal @ r1"
    using write_observations_prefix by blast
  obtain r2 where r2: "write_points bal (write_header bal @ r1) = (write_header bal @ r1) @ r2"
    using write_points_prefix by blast
  show ?thesis using f r1 r2 by simp
qed

lemma read_written_header:
  "BALProblem_read_header (write_header bal @ rest)
     = Some (num_cameras bal, num_cameras bal, num_points bal)"
  by (simp add: write_header_def)

text \<open>
  C10. The header written has four integers, the number of cameras twice; the
  constructor reads three. It does not follow that the counts read back always differ
  from those written: they are the same when the three counts are equal; the empty problem is
  written in full and read back with its own counts, and the header of the problem with
  one camera, one point and one observation reads back as (1, 1, 1).
\<close>
theorem header_read_back_counterexample:
  "WriteToFile id bal_empty True = Some (Some [D 0, D 0, D 0, D 0])
   \<and> BALProblem_read_header [D 0, D 0, D 0, D 0]
       = Some (num_cameras bal_empty, num_points bal_empty, num_observations bal_empty)
   \<and> write_header bal_one_each = [D 1, D 1, D 1, D 1]
   \<and> BALProblem_read_header (write_header bal_one_each)
       = Some (num_cameras bal_one_each, num_points bal_one_each, num_observations bal_one_each)"
  by (simp add: WriteToFile_def write_cameras_Some write_observations_def write_points_def
      write_header_def for_loop.simps bal_empty_def bal_one_each_def)

text \<open>
  C10, as the program has it. Whatever follows the header, and so for every file
  \<open>WriteToFile\<close> returns with, the constructor reads the counts (cameras, cameras,
  points); these are the counts written exactly when the three counts are equal.
\<close>
theorem header_read_back:
  "BALProblem_read_header (write_header bal @ rest)
     = Some (num_cameras bal, num_cameras bal, num_points bal)
   \<and> (WriteToFile q2aa bal opened = Some (Some file) \<longrightarrow>
        BALProblem_read_header file = Some (num_cameras bal, num_cameras bal, num_points bal))
   \<and> (BALProblem_read_header (write_header bal @ rest)
        = Some (num_cameras bal, num_points bal, num_observations bal)
      \<longleftrightarrow> num_cameras bal = num_points bal \<and> num_points bal = num_observations bal)"
  using WriteToFile_file_starts_with_header [of q2aa bal opened]
  by (auto simp add: read_written_header)

theorem header_read_back_witness:
  "WriteToFile id bal_points_only True = Some (Some [D 0, D 0, D 1, D 0, G16 1, G16 2, G16 3])
   \<and> BALProblem_read_header [D 0, D 0, D 1, D 0, G16 1, G16 2, G16 3] = Some (0, 0, 1)
   \<and> (num_cameras bal_points_only, num_points bal_points_only, num_observations bal_points_only)
       = (0, 1, 0)"
proof -
  have w: "WriteToFile id bal_points_only True = Some (Some [D 0, D 0, D 1, D 0, G16 1, G16 2, G16 3])"
    by (simp add: WriteToFile_def write_cameras_Some write_observations_def write_points_def
        write_header_def for_loop.simps bal_points_only_def camera_block_size_def
        point_block_size_def)
  from header_read_back [of bal_points_only "[]" id True "[D 0, D 0, D 1, D 0, G16 1, G16 2, G16 3]"] w
  show ?thesis by (simp add: bal_points_only_def)
qed

subsection \<open>Camera centre\<close>

lemma rotate_about_z_inverse: "\<forall>a v. rotate_about_z a (rotate_about_z (vneg a) v) = v"
proof (intro allI)
  fix a v :: vec3
  obtain a1 a2 a3 where a: "a = (a1, a2, a3)" by (cases a)
  obtain x y z where v: "v = (x, y, z)" by (cases v)
  have e: "cos a3 * cos a3 + sin a3 * sin a3 = 1" by (rule sin_cos_squared_add3)
  have 1: "cos a3 * (cos a3 * x + sin a3 * y) - sin a3 * (cos a3 * y - sin a3 * x) = x"
    using e by algebra
  have 2: "sin a3 * (cos a3 * x + sin a3 * y) + cos a3 * (cos a3 * y - sin a3 * x) = y"
    using e by algebra
  show "rotate_about_z a (rotate_about_z (vneg a) v) = v"
    unfolding a v by (simp add: rotate_about_z_def 1 2)
qed

lemma rotate_about_z_odd: "\<forall>a v. rotate_about_z a (vneg v) = vneg (rotate_about_z a v)"
proof (intro allI)
  fix a v :: vec3
  obtain x y z where v: "v = (x, y, z)" by (cases v)
  show "rotate_about_z a (vneg v) = vneg (rotate_about_z a v)"
    unfolding v by (simp add: rotate_about_z_def)
qed

text \<open>
  C9. In angle-axis mode, with a point rotation that is odd in the point and undone by
  the rotation about the negated vector: \<open>CameraToAngleAxisAndCenter\<close> returns the
  rotation vector of the block and the centre \<open>c = -R\<^sup>T t\<close>, and
  \<open>AngleAxisAndCenterToCamera\<close> on them writes a block whose first six scalars are
  the rotation vector and the translation of the original block; the other scalars of
  the target are not written. In the other direction, for every rotation vector and
  centre, \<open>AngleAxisAndCenterToCamera\<close> writes the rotation vector and \<open>t = -R c\<close>, and
  \<open>CameraToAngleAxisAndCenter\<close> on the block written returns that rotation vector and
  that centre.
\<close>
theorem camera_center_round_trip:
  assumes "\<not> use_quaternions bal"
    and "\<forall>a v. rotate_point a (rotate_point (vneg a) v) = v"
    and "\<forall>a v. rotate_point a (vneg v) = vneg (rotate_point a v)"
    and "camera' + 9 \<le> length mem'"
    and "CameraToAngleAxisAndCenter rotate_point q2aa bal mem camera = (angle_axis, center)"
  shows "angle_axis = (mem ! (camera + 0), mem ! (camera + 1), mem ! (camera + 2))
       \<and> center = vneg (rotate_point (vneg angle_axis)
                          (mem ! (camera + 3), mem ! (camera + 4), mem ! (camera + 5)))
       \<and> (\<forall>k. k < 6 \<longrightarrow>
            AngleAxisAndCenterToCamera rotate_point aa2q bal angle_axis center mem' camera'
              ! (camera' + k) = mem ! (camera + k))
       \<and> (\<forall>k. 6 \<le> k \<longrightarrow>
            AngleAxisAndCenterToCamera rotate_point aa2q bal angle_axis center mem' camera'
              ! (camera' + k) = mem' ! (camera' + k))
       \<and> (\<forall>a c. AngleAxisAndCenterToCamera rotate_point aa2q bal a c mem' camera' ! (camera' + 0) = vx a
              \<and> AngleAxisAndCenterToCamera rotate_point aa2q bal a c mem' camera' ! (camera' + 1) = vy a
              \<and> AngleAxisAndCenterToCamera rotate_point aa2q bal a c mem' camera' ! (camera' + 2) = vz a
              \<and> (AngleAxisAndCenterToCamera rotate_point aa2q bal a c mem' camera' ! (camera' + 3),
                  AngleAxisAndCenterToCamera rotate_point aa2q bal a c mem' camera' ! (camera' + 4),
                  AngleAxisAndCenterToCamera rotate_point aa2q bal a c mem' camera' ! (camera' + 5))
                   = vneg (rotate_point a c)
              \<and> CameraToAngleAxisAndCenter rotate_point q2aa bal
                   (AngleAxisAndCenterToCamera rotate_point aa2q bal a c mem' camera') camera'
                   = (a, c))"
proof -
  let ?t = "(mem ! (camera + 3), mem ! (camera + 4), mem ! (camera + 5))"
  have cbs: "camera_block_size bal = 9" using assms(1) by (simp add: camera_block_size_def)
  have off: "nat (int camera + camera_block_size bal - 6) = camera + 3"
    "nat (int camera' + camera_block_size bal - 6) = camera' + 3"
    by (simp_all add: cbs)
  from assms(5) have aa: "angle_axis = (mem ! (camera + 0), mem ! (camera + 1), mem ! (camera + 2))"
    and c: "center = vneg (rotate_point (vneg angle_axis) ?t)"
    using assms(1) unfolding CameraToAngleAxisAndCenter_def Let_def off vscale_minus_one
    by (auto simp add: ac_simps)
  have "rotate_point angle_axis center
          = vneg (rotate_point angle_axis (rotate_point (vneg angle_axis) ?t))"
    unfolding c using assms(3) by blast
  also have "\<dots> = vneg ?t" using assms(2) by (simp only:)
  finally have rt: "rotate_point angle_axis center = vneg ?t" .
  let ?out = "AngleAxisAndCenterToCamera rotate_point aa2q bal angle_axis center mem' camera'"
  have out: "?out = mem'[camera' + 0 := mem ! (camera + 0), camera' + 1 := mem ! (camera + 1),
                        camera' + 2 := mem ! (camera + 2), camera' + 3 := mem ! (camera + 3),
                        camera' + 4 := mem ! (camera + 4), camera' + 5 := mem ! (camera + 5)]"
    using assms(1,4) unfolding AngleAxisAndCenterToCamera_def Let_def off vscale_minus_one rt
    by (simp add: aa ac_simps list_eq_iff_nth_eq nth_list_update)
  have in6: "?out ! (camera' + k) = mem ! (camera + k)" if "k < 6" for k
  proof -
    from that have "k = 0 \<or> k = 1 \<or> k = 2 \<or> k = 3 \<or> k = 4 \<or> k = 5" by arith
    then show ?thesis using assms(4) by (auto simp add: out)
  qed
  have out6: "?out ! (camera' + k) = mem' ! (camera' + k)" if "6 \<le> k" for k
    using that by (simp add: out)
  have conv: "AngleAxisAndCenterToCamera rotate_point aa2q bal a c mem' camera' ! (camera' + 0) = vx a
              \<and> AngleAxisAndCenterToCamera rotate_point aa2q bal a c mem' camera' ! (camera' + 1) = vy a
              \<and> AngleAxisAndCenterToCamera rotate_point aa2q bal a c mem' camera' ! (camera' + 2) = vz a
              \<and> (AngleAxisAndCenterToCamera rotate_point aa2q bal a c mem' camera' ! (camera' + 3),
                  AngleAxisAndCenterToCamera rotate_point aa2q bal a c mem' camera' ! (camera' + 4),
                  AngleAxisAndCenterToCamera rotate_point aa2q bal a c mem' camera' ! (camera' + 5))
                   = vneg (rotate_point a c)
              \<and> CameraToAngleAxisAndCenter rotate_point q2aa bal
                   (AngleAxisAndCenterToCamera rotate_point aa2q bal a c mem' camera') camera'
                   = (a, c)" for a c
  proof -
    let ?cam = "AngleAxisAndCenterToCamera rotate_point aa2q bal a c mem' camera'"
    obtain r0 r1 r2 where r: "rotate_point a c = (r0, r1, r2)" by (cases "rotate_point a c")
    have cam: "?cam = mem'[camera' + 0 := vx a, camera' + 1 := vy a, camera' + 2 := vz a,
                          camera' + 3 := - r0, camera' + 4 := - r1, camera' + 5 := - r2]"
      using assms(1,4) unfolding AngleAxisAndCenterToCamera_def Let_def off vscale_minus_one r
      by (simp add: ac_simps list_eq_iff_nth_eq nth_list_update)
    have n: "?cam ! (camera' + 0) = vx a" "?cam ! (camera' + 1) = vy a" "?cam ! (camera' + 2) = vz a"
      "?cam ! (camera' + 3) = - r0" "?cam ! (camera' + 4) = - r1" "?cam ! (camera' + 5) = - r2"
      using assms(4) by (simp_all add: cam)
    have t: "(?cam ! (camera' + 3), ?cam ! (camera' + 4), ?cam ! (camera' + 5)) = vneg (rotate_point a c)"
      by (simp add: n r)
    have "rotate_point (vneg a) (vneg (rotate_point a c)) = vneg (rotate_point (vneg a) (rotate_point a c))"
      using assms(3) by blast
    also have "rotate_point (vneg a) (rotate_point a c) = c"
      using assms(2) [rule_format, of "vneg a" c] by (simp add: vneg_vneg)
    finally have inv: "vneg (rotate_point (vneg a) (vneg (rotate_point a c))) = c"
      by (simp add: vneg_vneg)
    have "CameraToAngleAxisAndCenter rotate_point q2aa bal ?cam camera'
            = ((?cam ! (camera' + 0), ?cam ! (camera' + 1), ?cam ! (camera' + 2)),
               vneg (rotate_point (vneg (?cam ! (camera' + 0), ?cam ! (camera' + 1), ?cam ! (camera' + 2)))
                       (?cam ! (camera' + 3), ?cam ! (camera' + 4), ?cam ! (camera' + 5))))"
      using assms(1) unfolding CameraToAngleAxisAndCenter_def Let_def off vscale_minus_one
      by (simp add: ac_simps)
    also have "\<dots> = (a, c)"
      unfolding t unfolding n by (simp add: vec3_eta inv)
    finally show ?thesis using n t by simp
  qed
  show ?thesis using aa c in6 out6 conv by blast
qed

theorem camera_center_round_trip_witness:
  "\<not> use_quaternions bal_quarter_turn
   \<and> (0::nat) + 9 \<le> length (replicate 9 (0::real))
   \<and> CameraToAngleAxisAndCenter rotate_about_z id bal_quarter_turn (parameters bal_quarter_turn) 0
        = ((0, 0, pi / 2), (0, 1, 0))
   \<and> AngleAxisAndCenterToCamera rotate_about_z (\<lambda>a. []) bal_quarter_turn (0, 0, pi / 2) (0, 1, 0)
        (replicate 9 0) 0 ! (0 + 2) = pi / 2
   \<and> AngleAxisAndCenterToCamera rotate_about_z (\<lambda>a. []) bal_quarter_turn (0, 0, pi / 2) (0, 1, 0)
        (replicate 9 0) 0 ! (0 + 3) = 1
   \<and> AngleAxisAndCenterToCamera rotate_about_z (\<lambda>a. []) bal_quarter_turn (0, 0, pi / 2) (0, 1, 0)
        (replicate 9 0) 0 ! (0 + 4) = 0
   \<and> CameraToAngleAxisAndCenter rotate_about_z id bal_quarter_turn
        (AngleAxisAndCenterToCamera rotate_about_z (\<lambda>a. []) bal_quarter_turn (0, 0, pi / 2) (0, 1, 0)
           (replicate 9 0) 0) 0
        = ((0, 0, pi / 2), (0, 1, 0))"
proof -
  have h1: "\<not> use_quaternions bal_quarter_turn" by (simp add: bal_quarter_turn_def)
  have h4: "(0::nat) + 9 \<le> length (replicate 9 (0::real))" by simp
  have h5: "CameraToAngleAxisAndCenter rotate_about_z id bal_quarter_turn (parameters bal_quarter_turn) 0
        = ((0, 0, pi / 2), (0, 1, 0))"
    by (simp add: CameraToAngleAxisAndCenter_def bal_quarter_turn_def camera_block_size_def
        rotate_about_z_def)
  note T = camera_center_round_trip [OF h1 rotate_about_z_inverse rotate_about_z_odd h4 h5,
      of "\<lambda>a. []"]
  have p: "parameters bal_quarter_turn ! (0 + 2) = pi / 2" "parameters bal_quarter_turn ! (0 + 3) = 1"
    "parameters bal_quarter_turn ! (0 + 4) = 0"
    by (simp_all add: bal_quarter_turn_def)
  note fwd = T [THEN conjunct2, THEN conjunct2, THEN conjunct1, rule_format]
  have a: "AngleAxisAndCenterToCamera rotate_about_z (\<lambda>a. []) bal_quarter_turn (0, 0, pi / 2) (0, 1, 0)
        (replicate 9 0) 0 ! (0 + 2) = pi / 2"
    using fwd [of 2] p by simp
  have b: "AngleAxisAndCenterToCamera rotate_about_z (\<lambda>a. []) bal_quarter_turn (0, 0, pi / 2) (0, 1, 0)
        (replicate 9 0) 0 ! (0 + 3) = 1"
    using fwd [of 3] p by simp
  have c: "AngleAxisAndCenterToCamera rotate_about_z (\<lambda>a. []) bal_quarter_turn (0, 0, pi / 2) (0, 1, 0)
        (replicate 9 0) 0 ! (0 + 4) = 0"
    using fwd [of 4] p by simp
  from T have d: "CameraToAngleAxisAndCenter rotate_about_z id bal_quarter_turn
        (AngleAxisAndCenterToCamera rotate_about_z (\<lambda>a. []) bal_quarter_turn (0, 0, pi / 2) (0, 1, 0)
           (replicate 9 0) 0) 0
        = ((0, 0, pi / 2), (0, 1, 0))"
    by blast
  show ?thesis using h1 h4 h5 a b c d by blast
qed

end
